theory Spec2Isabelle
  imports Complex_Main
begin

section \<open>JSON documents\<close>

text \<open>
  The script reads its inputs with \<^verbatim>\<open>JSON.parse\<close>. A parsed document is a tree: an
  object is kept as the list of its properties in the order \<^verbatim>\<open>for (let key in obj)\<close>
  enumerates them, an array as the list of its elements. Numbers are kept as exact
  rationals. A property that is absent reads as \<^verbatim>\<open>undefined\<close>, which is \<open>None\<close> below.
\<close>

datatype json =
    JNull
  | JBool bool
  | JNum rat
  | JStr string
  | JArr "json list"
  | JObj "(string \<times> json) list"

datatype error = TypeError string

text \<open>Truthiness of a value, as \<^verbatim>\<open>&&\<close>, \<^verbatim>\<open>||\<close>, \<^verbatim>\<open>!\<close> and \<^verbatim>\<open>? :\<close> test it.\<close>

fun truthy :: "json option \<Rightarrow> bool" where
  "truthy None = False"
| "truthy (Some JNull) = False"
| "truthy (Some (JBool b)) = b"
| "truthy (Some (JNum r)) = (r \<noteq> 0)"
| "truthy (Some (JStr s)) = (s \<noteq> [])"
| "truthy (Some (JArr xs)) = True"
| "truthy (Some (JObj kvs)) = True"

text \<open>
  \<^verbatim>\<open>entry.op\<close>: reading a property of \<^verbatim>\<open>null\<close> throws; an object yields the
  property or \<^verbatim>\<open>undefined\<close>; numbers, booleans, strings and arrays have no
  property of that name.
\<close>

fun get_op :: "json \<Rightarrow> error + json option" where
  "get_op JNull = Inl (TypeError ''Cannot read properties of null (reading 'op')'')"
| "get_op (JObj kvs) = Inr (map_of kvs ''op'')"
| "get_op _ = Inr None"

section \<open>Keyword catalog\<close>

text \<open>
  The two lists, as both scripts declare them (\<^verbatim>\<open>mongoAssess.js\<close> and the script with
  the sizing mode hold the same entries in the same order).
\<close>

definition supported_keywords :: "string list" where
  "supported_keywords = [
    ''$gt'',''$gte'',''$lt'',''$and'',''$not'',''$or'',''$nor'',''$ne'',''$eq'',''$in'',''$lte'',''$nin'',''$exists'',''$type'',
    ''$regex'',''$text'',''$near'',''$nearSphere'',''$size'',''$natural'',''$inc'',''$min'',''$max'',''$rename'',''$set'',
    ''$addToSet'',''$pop'',''$pull'',''$push'',''$pullAll'',''$each'',''$position'',''$sort'',''$bit'',''$count'',''$limit'',
    ''$match'',''$skip'',''$slice'',''$group'',''$project'',''$arrayElemAt'']"

definition not_supported_keywords :: "string list" where
  "not_supported_keywords = [
    ''$expr'',''$jsonSchema'',''$mod'',''$geoIntersects'',''$geoWithin'',''$box'',''$center'',''$centerSphere'',
    ''$maxDistance'',''$minDistance'',''$polygon'',''$all'',''$bitsAllClear'',''$bitsAllSet'',''$bitsAnyClear'',
    ''$bitsAnySet'',''$elemMatch'',''$rand'',''$currentData'',''$mul'',''$setOnInsert'',''$abs'',''$accumulator'',
    ''$acos'',''$acosh'',''$addFields'',''$bucket'',''$bucketAuto'',''$changeStream'',''$collStats'',''$currentOp'',
    ''$densify'',''$documents'',''$facet'',''$fill'',''$geoNear'',''$graphLookup'',''$indexStats'',''$lookup'',''$merge'',
    ''$out'',''$redact'',''$replaceRoot'',''$replaceWith'',''$sample'',''$search'',''$searchMeta'',''$setWindowFields'',
    ''$sortByCount'',''$unionWith'',''$unset'',''$unwind'',''$add'',''$allElementsTrue'',''$anyElementTrue'',
    ''$arrayToObject'',''$asin'',''$asinh'',''$atan'',''$atan2'',''$atanh'',''$avg'',''$binarySize'',''$bottom'',
    ''$bottomN'',''$bsonSize'',''$ceil'',''$cmp'',''$concat'',''$concatArrays'',''$cond'',''$convert'',''$cosh'',
    ''$covariancePop'',''$covarianceSamp'',''$dateAdd'',''$dateDiff'',''$dateFromParts'',''$dateFromString'',
    ''$datesubtract'',''$dateToParts'',''$dateToString'',''$dateTrunc'',''$dayOfMonth'',''$dayOfWeek'',
    ''$dayOfYear'',''$degreesToRadians'',''$denseRank'',''$derivative'',''$divide'',''$documentNumber'',''$exp'',
    ''$expMovingAvg'',''$filter'',''$first'',''$firstN'',''$floor'',''$function'',''$getField'',''$hour'',''$ifNull'',
    ''$indexOfArray'',''$indexOfBytes'',''$indexOfCP'',''$integral'',''$isArray'',''$isNumber'',''$isoDayOfWeek'',
    ''$isoWeek'',''$isoWeekYear'',''$last'',''$lastN'',''$let'',''$linearFill'',''$literal'',''$ln'',''$log'',''$log10'',
    ''$ltrim'',''$map'',''$maxN'',''$mergeObjects'',''$meta'',''$minN'',''$millisecond'',''$minute'',''$month'',
    ''$multiply'',''$objectToArray'',''$pow'',''$radiansToDegrees'',''$range'',''$rank'',''$reduce'',''$regexFind'',
    ''$regexFindAll'',''$regexMatch'',''$replaceOne'',''$replaceAll'',''$reverseArray'',''$round'',''$rtrim'',
    ''$sampleRate'',''$second'',''$setDifference'',''$setEquals'',''$setField'',''$setIntersection'',''$setIsSubset'',
    ''$setUnion'',''$shift'',''$sin'',''$sinh'',''$sortArray'',''$split'',''$sqrt'',''$stsDevPop'',''$stsDevSamp'',
    ''$strLenBytes'',''$strcasecmp'',''$strLenCP'',''$substr'',''$substrCP'',''$subtract'',''$sum'',''$switch'',
    ''$tan'',''$tanh'',''$toBool'',''$toDate'',''$toDecimal'',''$toDouble'',''$toInt'',''$toLong'',''$toObjectId'',
    ''$top'',''$topN'',''$toString'',''$toLower'',''$toUpper'',''$tsIncrement'',''$tsSecond'',''$trim'',''$trunc'',
    ''$unsetField'',''$week'',''$year'',''$zip'']"

section \<open>Document classifier\<close>

text \<open>
  The two count dictionaries are plain objects keyed by keyword; they are kept as
  association lists in insertion order, which is the order \<^verbatim>\<open>Object.entries\<close> and
  \<^verbatim>\<open>Object.values\<close> later read them in.
\<close>

type_synonym dictionary = "(string \<times> nat) list"

text \<open>\<^verbatim>\<open>dict[key] = (dict[key] || 0) + 1\<close>\<close>

fun increment :: "string \<Rightarrow> dictionary \<Rightarrow> dictionary" where
  "increment key [] = [(key, 1)]"
| "increment key ((k, n) # d) =
     (if k = key then (k, n + 1) # d else (k, n) # increment key d)"

text \<open>\<^verbatim>\<open>key.startsWith('$')\<close>\<close>

fun startsWith_dollar :: "string \<Rightarrow> bool" where
  "startsWith_dollar [] = False"
| "startsWith_dollar (c # cs) = (c = CHR ''$'')"

text \<open>
  The variables \<^verbatim>\<open>traverse\<close> writes: the two dictionaries of the enclosing
  \<^verbatim>\<open>analyze_keywords\<close> and the \<^verbatim>\<open>command_category\<close> array it is handed.
\<close>

type_synonym walk = "dictionary \<times> dictionary \<times> string list"

text \<open>The body of the loop over the keys of an object, before the recursive call.\<close>

fun visit_key :: "string \<Rightarrow> walk \<Rightarrow> walk" where
  "visit_key key (supported_dictionary, not_supported_dictionary, command_category) =
     (if startsWith_dollar key then
        if key \<in> set supported_keywords then
          (increment key supported_dictionary, not_supported_dictionary, command_category)
        else if key \<in> set not_supported_keywords then
          (supported_dictionary, increment key not_supported_dictionary,
           if key \<notin> set command_category then command_category @ [key] else command_category)
        else (supported_dictionary, not_supported_dictionary, command_category)
      else (supported_dictionary, not_supported_dictionary, command_category))"

text \<open>
  \<^verbatim>\<open>traverse(obj, command_category)\<close>. The first test, \<^verbatim>\<open>typeof obj === 'object' && obj !== null\<close>,
  holds for objects and for arrays alike, so an array is walked by the same
  \<^verbatim>\<open>for ... in\<close> loop: its keys are its indices, none of which starts with \<^verbatim>\<open>$\<close>, and
  each element is traversed in turn. The \<^verbatim>\<open>Array.isArray\<close> branch is never reached.
  Every other value is left alone.
\<close>

function (sequential) traverse :: "json \<Rightarrow> walk \<Rightarrow> walk"
  and traverse_keys :: "(string \<times> json) list \<Rightarrow> walk \<Rightarrow> walk"
  and traverse_items :: "json list \<Rightarrow> walk \<Rightarrow> walk" where
  "traverse (JObj kvs) w = traverse_keys kvs w"
| "traverse (JArr xs) w = traverse_items xs w"
| "traverse _ w = w"
| "traverse_keys [] w = w"
| "traverse_keys ((key, v) # kvs) w = traverse_keys kvs (traverse v (visit_key key w))"
| "traverse_items [] w = w"
| "traverse_items (x # xs) w = traverse_items xs (traverse x w)"
  by pat_completeness auto
termination
  by (relation "measure (\<lambda>a. case a of
        Inl (j, w) \<Rightarrow> size j
      | Inr (Inl (kvs, w)) \<Rightarrow> size_list (size_prod (\<lambda>x. 0) size) kvs
      | Inr (Inr (xs, w)) \<Rightarrow> size_list size xs)") auto

record analysis =
  supported_dictionary :: dictionary
  not_supported_dictionary :: dictionary
  supported_commands :: "json list"
  not_supported_commands :: "(json \<times> string list) list"

text \<open>\<^verbatim>\<open>entry.op && entry.op === 'command'\<close>\<close>

definition op_is_command :: "json option \<Rightarrow> bool" where
  "op_is_command p = (truthy p \<and> p = Some (JStr ''command''))"

text \<open>
  The callback of \<^verbatim>\<open>data.forEach\<close> in \<^verbatim>\<open>analyze_keywords\<close>, which reads the same in
  both scripts. An exception in the callback ends the loop and leaves the function.
\<close>

definition analyze_entry :: "json \<Rightarrow> analysis \<Rightarrow> error + analysis" where
  "analyze_entry entry a =
     (case get_op entry of
        Inl e \<Rightarrow> Inl e
      | Inr p \<Rightarrow>
          if op_is_command p then
            (case traverse entry (supported_dictionary a, not_supported_dictionary a, []) of
               (sd, nd, command_category) \<Rightarrow>
                 if length command_category > 0 then
                   Inr (a\<lparr>supported_dictionary := sd, not_supported_dictionary := nd,
                           not_supported_commands :=
                             not_supported_commands a @ [(entry, command_category)]\<rparr>)
                 else
                   Inr (a\<lparr>supported_dictionary := sd, not_supported_dictionary := nd,
                           supported_commands := supported_commands a @ [entry]\<rparr>))
          else Inr a)"

fun for_each_entry :: "json list \<Rightarrow> analysis \<Rightarrow> error + analysis" where
  "for_each_entry [] a = Inr a"
| "for_each_entry (entry # rest) a =
     (case analyze_entry entry a of Inl e \<Rightarrow> Inl e | Inr a' \<Rightarrow> for_each_entry rest a')"

definition analyze_keywords :: "json list \<Rightarrow> error + analysis" where
  "analyze_keywords data =
     for_each_entry data
       \<lparr>supported_dictionary = [], not_supported_dictionary = [],
        supported_commands = [], not_supported_commands = []\<rparr>"

subsection \<open>What the classifier is specified to compute\<close>

text \<open>
  The keys of every object nested anywhere in a document (the document itself included),
  with repetitions, in the order a depth-first walk meets them.
\<close>

function (sequential) object_keys :: "json \<Rightarrow> string list"
  and property_keys :: "(string \<times> json) list \<Rightarrow> string list"
  and item_keys :: "json list \<Rightarrow> string list" where
  "object_keys (JObj kvs) = property_keys kvs"
| "object_keys (JArr xs) = item_keys xs"
| "object_keys _ = []"
| "property_keys [] = []"
| "property_keys ((key, v) # kvs) = key # object_keys v @ property_keys kvs"
| "item_keys [] = []"
| "item_keys (x # xs) = object_keys x @ item_keys xs"
  by pat_completeness auto
termination
  by (relation "measure (\<lambda>a. case a of
        Inl j \<Rightarrow> size j
      | Inr (Inl kvs) \<Rightarrow> size_list (size_prod (\<lambda>x. 0) size) kvs
      | Inr (Inr xs) \<Rightarrow> size_list size xs)") auto

text \<open>The \<^verbatim>\<open>op\<close> field of a profile entry, if it has one.\<close>

definition entry_op :: "json \<Rightarrow> json option" where
  "entry_op e = (case e of JObj kvs \<Rightarrow> map_of kvs ''op'' | _ \<Rightarrow> None)"

definition is_command_entry :: "json \<Rightarrow> bool" where
  "is_command_entry e = (entry_op e = Some (JStr ''command''))"

text \<open>A not-supported keyword occurs as an object key somewhere inside the entry.\<close>

definition contains_not_supported :: "json \<Rightarrow> bool" where
  "contains_not_supported e = (\<exists>k \<in> set (object_keys e). k \<in> set not_supported_keywords)"

subsection \<open>The triggers of an entry\<close>

text \<open>
  What \<open>visit_key\<close> does to \<^verbatim>\<open>command_category\<close> alone, and the array the walk of a
  whole entry leaves behind when it starts from the empty one.
\<close>

definition add_trigger :: "string \<Rightarrow> string list \<Rightarrow> string list" where
  "add_trigger key cc =
     (if startsWith_dollar key \<and> key \<notin> set supported_keywords \<and> key \<in> set not_supported_keywords
         \<and> key \<notin> set cc
      then cc @ [key] else cc)"

definition triggers :: "json \<Rightarrow> string list" where
  "triggers e = foldl (\<lambda>cc k. add_trigger k cc) [] (object_keys e)"

section \<open>Numbers\<close>

text \<open>
  The value of a numeric expression is a number or \<^verbatim>\<open>NaN\<close>. Arithmetic is exact: the
  model computes with rationals where the script computes with IEEE doubles, so it
  agrees with the script wherever no rounding takes place.
\<close>

datatype jsnum = NaN | Num rat

fun js_add :: "jsnum \<Rightarrow> jsnum \<Rightarrow> jsnum" where
  "js_add (Num a) (Num b) = Num (a + b)"
| "js_add _ _ = NaN"

fun js_mul :: "jsnum \<Rightarrow> jsnum \<Rightarrow> jsnum" where
  "js_mul (Num a) (Num b) = Num (a * b)"
| "js_mul _ _ = NaN"

text \<open>
  Division: \<^verbatim>\<open>0 / 0\<close> is \<^verbatim>\<open>NaN\<close>. A number other than zero divided by zero is an
  infinity in JavaScript, which the model does not have; no division of the two
  scripts reaches that case: the divisors are the constants \<^verbatim>\<open>1500\<close> and
  \<^verbatim>\<open>1024 * 1024\<close>, an uptime that has just been tested positive, and a total of
  counts that is zero only when the dividend is.
\<close>

fun js_div :: "jsnum \<Rightarrow> jsnum \<Rightarrow> jsnum" where
  "js_div (Num a) (Num b) = (if b = 0 then NaN else Num (a / b))"
| "js_div _ _ = NaN"

text \<open>\<^verbatim>\<open>x > 0\<close>, false for \<^verbatim>\<open>NaN\<close>.\<close>

fun js_positive :: "jsnum \<Rightarrow> bool" where
  "js_positive (Num a) = (a > 0)"
| "js_positive NaN = False"

text \<open>\<^verbatim>\<open>Math.ceil\<close>\<close>

fun js_ceil :: "jsnum \<Rightarrow> jsnum" where
  "js_ceil (Num a) = Num (of_int \<lceil>a\<rceil>)"
| "js_ceil NaN = NaN"

section \<open>Keyword summary\<close>

record keyword_summary =
  total_keywords :: nat
  total_supported :: nat
  total_not_supported :: nat
  supported_percent :: jsnum

text \<open>
  \<^verbatim>\<open>summarize_keywords\<close> of the script with the sizing mode; \<^verbatim>\<open>mongoAssess.js\<close>
  computes \<^verbatim>\<open>total_keywords\<close> first, from the same two sums. The counts are those
  \<^verbatim>\<open>analyze_keywords\<close> makes, natural numbers.

  \<^verbatim>\<open>Object.values(dict).reduce((a, b) => a + b, 0)\<close>:
\<close>

definition sum_values :: "dictionary \<Rightarrow> nat" where
  "sum_values d = foldl (\<lambda>a b. a + b) 0 (map snd d)"

definition summarize_keywords :: "dictionary \<Rightarrow> dictionary \<Rightarrow> keyword_summary" where
  "summarize_keywords supported_dict not_supported_dict =
     (let total_supported = sum_values supported_dict;
          total_not_supported = sum_values not_supported_dict;
          total_keywords = total_supported + total_not_supported;
          supported_percent =
            (if total_keywords > 0
             then js_mul (js_div (Num (of_nat total_supported)) (Num (of_nat total_keywords)))
                    (Num 100)
             else Num 0)
      in \<lparr>total_keywords = total_keywords, total_supported = total_supported,
          total_not_supported = total_not_supported, supported_percent = supported_percent\<rparr>)"

section \<open>Metrics snapshot\<close>

text \<open>
  The snapshot is the object \<^verbatim>\<open>collect_lifetime_metrics\<close> writes and the sizing mode
  loads with \<^verbatim>\<open>JSON.parse\<close>. A property of an object is absent (it reads as
  \<^verbatim>\<open>undefined\<close>), or \<^verbatim>\<open>null\<close>, or it has a value.
\<close>

datatype 'a property = Undefined | Null | Value 'a

text \<open>
  Where the sizing expects an object (\<^verbatim>\<open>opcounters\<close>, \<^verbatim>\<open>opcounters.deprecated\<close>,
  \<^verbatim>\<open>connections\<close>, \<^verbatim>\<open>network\<close>, \<^verbatim>\<open>dbStats\<close> and each entry of \<^verbatim>\<open>dbStats\<close>), the value
  is that object, or a boolean, a number or a string. An array is an object whose
  property names are its indices: it has none of the named properties, and as
  \<^verbatim>\<open>dbStats\<close> its elements are the per-database values.
\<close>

datatype primitive = PBool bool | PNum rat | PStr string

datatype 'r container = Primitive primitive | Object 'r

text \<open>
  Where the sizing expects a number (\<^verbatim>\<open>uptimeSeconds\<close> and the counters and sizes
  inside the objects), the value is a number: a \<open>rat property\<close>.

  \<^verbatim>\<open>value.name\<close> throws on \<^verbatim>\<open>undefined\<close> and on \<^verbatim>\<open>null\<close>; a boolean, a number or a
  string has none of the properties the sizing reads.
\<close>

definition cannot_read :: "string \<Rightarrow> string \<Rightarrow> error" where
  "cannot_read what name =
     TypeError (''Cannot read properties of '' @ what @ '' (reading '' @ [CHR 0x27] @ name
                  @ [CHR 0x27] @ '')'')"

fun member_of :: "'r container \<Rightarrow> ('r \<Rightarrow> 'b property) \<Rightarrow> 'b property" where
  "member_of (Primitive p) field = Undefined"
| "member_of (Object r) field = field r"

text \<open>Truthiness of a value that may be an object.\<close>

fun truthy_value :: "'r container property \<Rightarrow> bool" where
  "truthy_value Undefined = False"
| "truthy_value Null = False"
| "truthy_value (Value (Primitive (PBool b))) = b"
| "truthy_value (Value (Primitive (PNum r))) = (r \<noteq> 0)"
| "truthy_value (Value (Primitive (PStr s))) = (s \<noteq> [])"
| "truthy_value (Value (Object r)) = True"

text \<open>
  A numeric property in arithmetic: \<^verbatim>\<open>undefined\<close> becomes \<^verbatim>\<open>NaN\<close> and \<^verbatim>\<open>null\<close>
  becomes \<^verbatim>\<open>0\<close>.
\<close>

fun to_number :: "rat property \<Rightarrow> jsnum" where
  "to_number Undefined = NaN"
| "to_number Null = Num 0"
| "to_number (Value r) = Num r"

text \<open>\<^verbatim>\<open>x || 0\<close> on a numeric property: absent, \<^verbatim>\<open>null\<close> and zero all give \<^verbatim>\<open>0\<close>.\<close>

fun or_zero :: "rat property \<Rightarrow> jsnum" where
  "or_zero Undefined = Num 0"
| "or_zero Null = Num 0"
| "or_zero (Value r) = (if r \<noteq> 0 then Num r else Num 0)"

text \<open>
  The fields \<open>oc_insert\<close> to \<open>oc_deprecated\<close> are the properties \<^verbatim>\<open>insert\<close> to
  \<^verbatim>\<open>deprecated\<close> of \<^verbatim>\<open>opcounters\<close>, and \<open>dep_query\<close> is \<^verbatim>\<open>opcounters.deprecated.query\<close>.
  The databases of \<^verbatim>\<open>dbStats\<close> are listed in the order \<^verbatim>\<open>for (const db in db_stats)\<close>
  visits them. The memory statistics (\<^verbatim>\<open>mem\<close>; the collector of \<^verbatim>\<open>mongoAssess.js\<close>
  calls the property \<^verbatim>\<open>memory\<close>) and the properties the sizing does not name are
  arbitrary documents, absent when \<open>None\<close>. The record of the whole snapshot,
  \<open>metrics\<close>, follows the calculations on its parts.
\<close>

record deprecated_counters =
  dep_query :: "rat property"

record op_counters =
  oc_insert :: "rat property"
  oc_query :: "rat property"
  oc_update :: "rat property"
  oc_delete :: "rat property"
  oc_getmore :: "rat property"
  oc_command :: "rat property"
  oc_deprecated :: "deprecated_counters container property"

record connection_stats =
  current :: "rat property"

record network_stats =
  bytesIn :: "rat property"
  bytesOut :: "rat property"

record db_stats_entry =
  dataSize :: "rat property"
  indexSize :: "rat property"
  totalSize :: "rat property"

type_synonym db_stats = "(string \<times> db_stats_entry container property) list"

text \<open>
  The values \<^verbatim>\<open>db_stats[db]\<close> that \<^verbatim>\<open>for (const db in db_stats)\<close> visits: the entries of
  an object, the characters of a string, nothing for any other value (the loop does
  not throw on \<^verbatim>\<open>undefined\<close> or \<^verbatim>\<open>null\<close>).
\<close>

fun for_in_values :: "db_stats container property \<Rightarrow> db_stats_entry container property list" where
  "for_in_values (Value (Object dbs)) = map snd dbs"
| "for_in_values (Value (Primitive (PStr s))) = map (\<lambda>c. Value (Primitive (PStr [c]))) s"
| "for_in_values _ = []"

section \<open>Sizing estimator\<close>

record cpu_cores_result =
  total_operations :: jsnum
  ops_per_sec :: jsnum
  cpu_cores :: jsnum

text \<open>
  \<^verbatim>\<open>calculate_cpu_cores(opcounters, uptime_seconds, ops_per_core = 1500)\<close>. The first
  read, \<^verbatim>\<open>opcounters.insert\<close>, throws when \<^verbatim>\<open>opcounters\<close> is \<^verbatim>\<open>undefined\<close> or
  \<^verbatim>\<open>null\<close>.
\<close>

definition calculate_cpu_cores ::
  "op_counters container property \<Rightarrow> rat property \<Rightarrow> rat \<Rightarrow> error + cpu_cores_result" where
  "calculate_cpu_cores opcounters uptime_seconds ops_per_core =
     (case opcounters of
        Undefined \<Rightarrow> Inl (cannot_read ''undefined'' ''insert'')
      | Null \<Rightarrow> Inl (cannot_read ''null'' ''insert'')
      | Value oc \<Rightarrow>
          (let total_operations =
                 js_add (js_add (js_add (js_add (js_add (js_add
                   (to_number (member_of oc oc_insert))
                   (to_number (member_of oc oc_query)))
                   (to_number (member_of oc oc_update)))
                   (to_number (member_of oc oc_delete)))
                   (to_number (member_of oc oc_getmore)))
                   (to_number (member_of oc oc_command)))
                   (case member_of oc oc_deprecated of
                      Value deprecated \<Rightarrow>
                        if truthy_value (Value deprecated)
                        then to_number (member_of deprecated dep_query) else Num 0
                    | Undefined \<Rightarrow> Num 0
                    | Null \<Rightarrow> Num 0);
               ops_per_sec =
                 (if js_positive (to_number uptime_seconds)
                  then js_div total_operations (to_number uptime_seconds) else Num 0);
               cpu_cores = js_ceil (js_div ops_per_sec (Num ops_per_core))
           in Inr \<lparr>total_operations = total_operations, ops_per_sec = ops_per_sec,
                   cpu_cores = cpu_cores\<rparr>))"

record memory_requirements =
  working_set_size_mb :: jsnum
  memory_required_mb :: jsnum

text \<open>
  The loop of \<^verbatim>\<open>calculate_memory_requirements\<close> over the values \<^verbatim>\<open>stats = db_stats[db]\<close>,
  on the pair \<^verbatim>\<open>(total_data_size, total_index_size)\<close>. Reading \<^verbatim>\<open>stats.dataSize\<close> throws
  when \<^verbatim>\<open>stats\<close> is \<^verbatim>\<open>null\<close>.
\<close>

fun add_sizes ::
  "db_stats_entry container property list \<Rightarrow> jsnum \<times> jsnum \<Rightarrow> error + jsnum \<times> jsnum" where
  "add_sizes [] totals = Inr totals"
| "add_sizes (Undefined # rest) totals = Inl (cannot_read ''undefined'' ''dataSize'')"
| "add_sizes (Null # rest) totals = Inl (cannot_read ''null'' ''dataSize'')"
| "add_sizes (Value stats # rest) (total_data_size, total_index_size) =
     add_sizes rest
       (js_add total_data_size (or_zero (member_of stats dataSize)),
        js_add total_index_size (or_zero (member_of stats indexSize)))"

text \<open>\<^verbatim>\<open>calculate_memory_requirements(mem_stats, db_stats)\<close>\<close>

definition calculate_memory_requirements ::
  "json option \<Rightarrow> db_stats container property \<Rightarrow> error + memory_requirements" where
  "calculate_memory_requirements mem_stats db_stats =
     (case add_sizes (for_in_values db_stats) (Num 0, Num 0) of
        Inl e \<Rightarrow> Inl e
      | Inr (total_data_size, total_index_size) \<Rightarrow>
          (let working_set_size_bytes = js_add total_data_size total_index_size;
               working_set_size_mb = js_div working_set_size_bytes (Num (1024 * 1024));
               memory_required_mb = js_ceil (js_mul working_set_size_mb (Num (15 / 10)))
           in Inr \<lparr>working_set_size_mb = working_set_size_mb,
                   memory_required_mb = memory_required_mb\<rparr>))"

text \<open>The loop of \<^verbatim>\<open>calculate_storage_requirements\<close>, on \<^verbatim>\<open>total_storage\<close>.\<close>

fun add_storage :: "db_stats_entry container property list \<Rightarrow> jsnum \<Rightarrow> error + jsnum" where
  "add_storage [] total_storage = Inr total_storage"
| "add_storage (Undefined # rest) total_storage = Inl (cannot_read ''undefined'' ''totalSize'')"
| "add_storage (Null # rest) total_storage = Inl (cannot_read ''null'' ''totalSize'')"
| "add_storage (Value stats # rest) total_storage =
     add_storage rest (js_add total_storage (or_zero (member_of stats totalSize)))"

definition calculate_storage_requirements :: "db_stats container property \<Rightarrow> error + jsnum" where
  "calculate_storage_requirements db_stats =
     (case add_storage (for_in_values db_stats) (Num 0) of
        Inl e \<Rightarrow> Inl e
      | Inr total_storage \<Rightarrow>
          (let storage_required_bytes = js_ceil (js_mul total_storage (Num (12 / 10)))
           in Inr storage_required_bytes))"

definition calculate_network_bandwidth ::
  "network_stats container property \<Rightarrow> rat property \<Rightarrow> error + jsnum" where
  "calculate_network_bandwidth network_stats uptime_seconds =
     (case network_stats of
        Undefined \<Rightarrow> Inl (cannot_read ''undefined'' ''bytesIn'')
      | Null \<Rightarrow> Inl (cannot_read ''null'' ''bytesIn'')
      | Value n \<Rightarrow>
          (let bytes_in = or_zero (member_of n bytesIn);
               bytes_out = or_zero (member_of n bytesOut);
               total_bytes = js_add bytes_in bytes_out;
               total_mb = js_div total_bytes (Num (1024 * 1024));
               network_bandwidth_mb_sec =
                 (if js_positive (to_number uptime_seconds)
                  then js_div total_mb (to_number uptime_seconds) else Num 0)
           in Inr network_bandwidth_mb_sec))"

definition calculate_connection_limits :: "rat property \<Rightarrow> jsnum" where
  "calculate_connection_limits current_connections =
     js_ceil (js_mul (to_number current_connections) (Num (15 / 10)))"

record metrics =
  opcounters :: "op_counters container property"
  uptimeSeconds :: "rat property"
  connections :: "connection_stats container property"
  mem :: "json option"
  memory :: "json option"
  network :: "network_stats container property"
  dbStats :: "db_stats container property"
  other_properties :: "(string \<times> json) list"

text \<open>
  The object \<^verbatim>\<open>perform_sizing\<close> returns; its keys are, in order, \<^verbatim>\<open>"Total Operations"\<close>,
  \<^verbatim>\<open>"Uptime (seconds)"\<close>, \<^verbatim>\<open>"Operations per Second (OPS/sec)"\<close>, \<^verbatim>\<open>"CPU Cores Required"\<close>,
  \<^verbatim>\<open>"Working Set Size (MB)"\<close>, \<^verbatim>\<open>"Memory Required (MB)"\<close>, \<^verbatim>\<open>"Storage Required (Bytes)"\<close>,
  \<^verbatim>\<open>"Network Bandwidth Required (MB/sec)"\<close> and \<^verbatim>\<open>"Connection Limits"\<close>.
\<close>

record sizing =
  Total_Operations :: jsnum
  Uptime_seconds :: "rat property"
  Operations_per_Second :: jsnum
  CPU_Cores_Required :: jsnum
  Working_Set_Size_MB :: jsnum
  Memory_Required_MB :: jsnum
  Storage_Required_Bytes :: jsnum
  Network_Bandwidth_Required :: jsnum
  Connection_Limits :: jsnum

text \<open>
  \<^verbatim>\<open>perform_sizing(metrics, db_stats)\<close>. It hands \<^verbatim>\<open>metrics.memory\<close> to the memory
  calculation and reads \<^verbatim>\<open>metrics.connections.current\<close>, which throws when
  \<^verbatim>\<open>connections\<close> is absent or \<^verbatim>\<open>null\<close>. The calls run in the order written, so the
  first failure is the one reported.

  Three results are rounded with \<^verbatim>\<open>parseFloat(x.toFixed(digits))\<close>. Which decimal
  \<^verbatim>\<open>toFixed\<close> prints depends on the binary double that stands for \<^verbatim>\<open>x\<close> (\<^verbatim>\<open>1.005\<close>
  prints as \<^verbatim>\<open>1.00\<close>), which exact arithmetic does not determine; the rounding is
  therefore the parameter \<open>to_fixed\<close>, with the number of digits and the number as
  arguments.
\<close>

definition perform_sizing ::
  "(nat \<Rightarrow> jsnum \<Rightarrow> jsnum) \<Rightarrow> metrics \<Rightarrow> db_stats container property \<Rightarrow> error + sizing" where
  "perform_sizing to_fixed metrics db_stats =
     (case calculate_cpu_cores (opcounters metrics) (uptimeSeconds metrics) 1500 of
        Inl e \<Rightarrow> Inl e
      | Inr cpu \<Rightarrow>
     (case calculate_memory_requirements (memory metrics) db_stats of
        Inl e \<Rightarrow> Inl e
      | Inr mr \<Rightarrow>
     (case calculate_storage_requirements db_stats of
        Inl e \<Rightarrow> Inl e
      | Inr storage_required_bytes \<Rightarrow>
     (case calculate_network_bandwidth (network metrics) (uptimeSeconds metrics) of
        Inl e \<Rightarrow> Inl e
      | Inr network_bandwidth_mb_sec \<Rightarrow>
     (case connections metrics of
        Undefined \<Rightarrow> Inl (cannot_read ''undefined'' ''current'')
      | Null \<Rightarrow> Inl (cannot_read ''null'' ''current'')
      | Value c \<Rightarrow>
          (let connection_limits = calculate_connection_limits (member_of c current)
           in Inr \<lparr>Total_Operations = total_operations cpu,
                   Uptime_seconds = uptimeSeconds metrics,
                   Operations_per_Second = to_fixed 2 (ops_per_sec cpu),
                   CPU_Cores_Required = cpu_cores cpu,
                   Working_Set_Size_MB = to_fixed 2 (working_set_size_mb mr),
                   Memory_Required_MB = memory_required_mb mr,
                   Storage_Required_Bytes = storage_required_bytes,
                   Network_Bandwidth_Required = to_fixed 6 network_bandwidth_mb_sec,
                   Connection_Limits = connection_limits\<rparr>))))))"

section \<open>Report renderer\<close>

text \<open>
  \<^verbatim>\<open>generate_html_report\<close> builds the document by appending template literals to
  \<^verbatim>\<open>html_content\<close>. The document is kept as the list of the templates appended, each
  with the values it interpolates.
  In order of appearance in the source: the opening of the document up to its
  \<^verbatim>\<open>h1\<close> heading; the summary with the two operator tables; the table of
  \<^verbatim>\<open>summarize_sizing\<close>; the two listings of commands; the dump of the metrics; the FAQ
  with the closing script and tags.
\<close>

datatype html_block =
    Document_Head
  | Operators_Summary keyword_summary dictionary dictionary
  | Sizing_Recommendations sizing
  | Supported_Commands "json list"
  | Not_Supported_Commands "(json \<times> string list) list"
  | Metrics_Collected metrics
  | FAQ

text \<open>
  The arguments \<^verbatim>\<open>metrics\<close> and \<^verbatim>\<open>sizing\<close> default to \<^verbatim>\<open>null\<close> (\<open>None\<close>); an object
  is truthy. The result is the file written by \<^verbatim>\<open>fs.writeFileSync\<close>: its name and
  its content.
\<close>

definition generate_html_report ::
  "dictionary \<Rightarrow> dictionary \<Rightarrow> json list \<Rightarrow> (json \<times> string list) list \<Rightarrow> string
     \<Rightarrow> metrics option \<Rightarrow> sizing option \<Rightarrow> string \<times> html_block list" where
  "generate_html_report supported_dict not_supported_dict supported_cmds not_supported_cmds
       output_file metrics sizing =
     (let summary = summarize_keywords supported_dict not_supported_dict;
          html_content = [Document_Head];
          html_content = html_content @ [Operators_Summary summary supported_dict not_supported_dict];
          html_content =
            (case sizing of
               Some s \<Rightarrow> html_content @ [Sizing_Recommendations s]
             | None \<Rightarrow> html_content);
          html_content = html_content @ [Supported_Commands supported_cmds];
          html_content = html_content @ [Not_Supported_Commands not_supported_cmds];
          html_content =
            (case metrics of
               Some m \<Rightarrow> html_content @ [Metrics_Collected m]
             | None \<Rightarrow> html_content);
          html_content =
            (case metrics of
               None \<Rightarrow> html_content @ [FAQ]
             | Some m \<Rightarrow> html_content)
      in (output_file, html_content))"

section \<open>Sizing mode of the driver\<close>

definition required_fields :: "string list" where
  "required_fields =
     [''opcounters'', ''uptimeSeconds'', ''connections'', ''mem'', ''network'', ''dbStats'']"

text \<open>
  \<^verbatim>\<open>field in metrics_data\<close>: true of every property the object has, also of one whose
  value is \<^verbatim>\<open>null\<close>.
\<close>

definition field_in :: "string \<Rightarrow> metrics \<Rightarrow> bool" where
  "field_in field metrics_data =
     (if field = ''opcounters'' then opcounters metrics_data \<noteq> Undefined
      else if field = ''uptimeSeconds'' then uptimeSeconds metrics_data \<noteq> Undefined
      else if field = ''connections'' then connections metrics_data \<noteq> Undefined
      else if field = ''mem'' then mem metrics_data \<noteq> None
      else if field = ''memory'' then memory metrics_data \<noteq> None
      else if field = ''network'' then network metrics_data \<noteq> Undefined
      else if field = ''dbStats'' then dbStats metrics_data \<noteq> Undefined
      else field \<in> set (map fst (other_properties metrics_data)))"




section \<open>Purging the profiler collection\<close>

text \<open>
  The error object a failed database command throws, and what
  \<^verbatim>\<open>await db.collection('system.profile').drop()\<close> does: it returns, or it throws.
\<close>

record mongo_error =
  codeName :: "string option"
  message :: string

datatype drop_outcome = Dropped | Drop_Failed mongo_error

text \<open>
  \<^verbatim>\<open>purge_profiling_data\<close> of the sizing script: the result is the exception that
  leaves the function, or the lines it printed.
\<close>

definition purge_profiling_data :: "drop_outcome \<Rightarrow> string \<Rightarrow> mongo_error + string list" where
  "purge_profiling_data drop_result db_name =
     (case drop_result of
        Dropped \<Rightarrow>
          Inr [''Profiling data purged from database '' @ [CHR 0x27] @ db_name @ [CHR 0x27] @ ''.'']
      | Drop_Failed error \<Rightarrow>
          if codeName error = Some ''NamespaceNotFound'' then
            Inr [''No profiling data found in database '' @ [CHR 0x27] @ db_name @ [CHR 0x27] @ ''.'']
          else Inl error)"

text \<open>
  \<^verbatim>\<open>purge_profiling_data\<close> of \<^verbatim>\<open>mongoAssess.js\<close>: the same call with no
  \<^verbatim>\<open>try\<close> around it.
\<close>

definition purge_profiling_data_mongoAssess ::
  "drop_outcome \<Rightarrow> string \<Rightarrow> mongo_error + string list" where
  "purge_profiling_data_mongoAssess drop_result db_name =
     (case drop_result of
        Dropped \<Rightarrow>
          Inr [''Profiling data purged from database '' @ [CHR 0x27] @ db_name @ [CHR 0x27] @ ''.'']
      | Drop_Failed error \<Rightarrow> Inl error)"

section \<open>What the sizing is specified to compute\<close>

text \<open>The sum of the six named counters of \<^verbatim>\<open>opcounters\<close>.\<close>

definition six_counter_sum :: "op_counters \<Rightarrow> jsnum" where
  "six_counter_sum oc =
     js_add (js_add (js_add (js_add (js_add
       (to_number (oc_insert oc)) (to_number (oc_query oc))) (to_number (oc_update oc)))
       (to_number (oc_delete oc))) (to_number (oc_getmore oc))) (to_number (oc_command oc))"

text \<open>A size that is absent (or \<^verbatim>\<open>null\<close>) counts as zero.\<close>

fun absent_as_zero :: "rat property \<Rightarrow> rat" where
  "absent_as_zero Undefined = 0"
| "absent_as_zero Null = 0"
| "absent_as_zero (Value r) = r"

text \<open>The sum of one size field over a list of databases with their statistics.\<close>

definition sum_over_databases ::
  "(db_stats_entry \<Rightarrow> rat property) \<Rightarrow> (string \<times> db_stats_entry) list \<Rightarrow> rat" where
  "sum_over_databases field dbs = sum_list (map (\<lambda>(db, stats). absent_as_zero (field stats)) dbs)"

text \<open>The \<^verbatim>\<open>dbStats\<close> object that holds these databases.\<close>

definition db_stats_object :: "(string \<times> db_stats_entry) list \<Rightarrow> db_stats container property" where
  "db_stats_object dbs = Value (Object (map (\<lambda>(db, stats). (db, Value (Object stats))) dbs))"

text \<open>
  The same sum over the values a \<^verbatim>\<open>dbStats\<close> of any shape holds: a value that is not
  an object has no size, which counts as zero too.
\<close>

fun size_in :: "(db_stats_entry \<Rightarrow> rat property) \<Rightarrow> db_stats_entry container property \<Rightarrow> rat" where
  "size_in field (Value (Object stats)) = absent_as_zero (field stats)"
| "size_in field _ = 0"

definition sum_over_values ::
  "(db_stats_entry \<Rightarrow> rat property) \<Rightarrow> db_stats container property \<Rightarrow> rat" where
  "sum_over_values field db_stats = sum_list (map (size_in field) (for_in_values db_stats))"

text \<open>The two byte counts of \<^verbatim>\<open>network\<close>, an absent one counting as zero.\<close>

fun bytes_of :: "(network_stats \<Rightarrow> rat property) \<Rightarrow> network_stats container \<Rightarrow> rat" where
  "bytes_of field (Object n) = absent_as_zero (field n)"
| "bytes_of field (Primitive p) = 0"

text \<open>No per-database value is \<^verbatim>\<open>null\<close> (or a hole).\<close>

definition no_null_entry :: "db_stats container property \<Rightarrow> bool" where
  "no_null_entry db_stats = list_all (\<lambda>v. v \<noteq> Undefined \<and> v \<noteq> Null) (for_in_values db_stats)"

section \<open>Example inputs\<close>

text \<open>
  A profile export with a query, two commands that use no not-supported operator, and
  an aggregation that uses \<^verbatim>\<open>$lookup\<close> twice and \<^verbatim>\<open>$mod\<close> once.
\<close>

definition example_query :: json where
  "example_query =
     JObj [(''op'', JStr ''query''), (''command'', JObj [(''filter'', JObj [(''$expr'', JNum 1)])])]"

definition example_match :: json where
  "example_match =
     JObj [(''op'', JStr ''command''),
           (''command'', JObj [(''pipeline'', JArr [JObj [(''$match'', JObj [(''a'', JNum 1)])]])])]"

definition example_plain :: json where
  "example_plain = JObj [(''op'', JStr ''command''), (''ns'', JStr ''test.c'')]"

definition example_lookup :: json where
  "example_lookup =
     JObj [(''op'', JStr ''command''),
           (''command'', JObj [(''pipeline'',
              JArr [JObj [(''$lookup'', JObj [(''from'', JStr ''b'')])],
                    JObj [(''$match'', JObj [(''x'', JObj [(''$mod'', JArr [JNum 2, JNum 0])])])],
                    JObj [(''$lookup'', JObj [(''from'', JStr ''c'')])]])])]"

definition example_profile :: "json list" where
  "example_profile = [example_query, example_match, example_plain, example_lookup]"

text \<open>The counters of the specification's example, and the same with deprecated opcodes.\<close>

definition example_opcounters :: op_counters where
  "example_opcounters =
     \<lparr>oc_insert = Value 100, oc_query = Value 200, oc_update = Value 50, oc_delete = Value 10,
      oc_getmore = Value 5, oc_command = Value 5, oc_deprecated = Undefined\<rparr>"

definition example_opcounters_deprecated :: op_counters where
  "example_opcounters_deprecated =
     \<lparr>oc_insert = Value 100, oc_query = Value 200, oc_update = Value 50, oc_delete = Value 10,
      oc_getmore = Value 5, oc_command = Value 5,
      oc_deprecated = Value (Object \<lparr>dep_query = Value 5\<rparr>)\<rparr>"

definition example_db_stats :: "(string \<times> db_stats_entry) list" where
  "example_db_stats =
     [(''a'', \<lparr>dataSize = Value (100 * 1024 * 1024), indexSize = Value (50 * 1024 * 1024),
              totalSize = Value (200 * 1024 * 1024)\<rparr>)]"

text \<open>A snapshot with every required property, whose sizes are partly absent.\<close>

definition example_sparse_db_stats :: "(string \<times> db_stats_entry) list" where
  "example_sparse_db_stats =
     [(''a'', \<lparr>dataSize = Value (3 * 1024 * 1024), indexSize = Undefined, totalSize = Undefined\<rparr>),
      (''b'', \<lparr>dataSize = Undefined, indexSize = Value (1024 * 1024), totalSize = Value 10\<rparr>),
      (''c'', \<lparr>dataSize = Undefined, indexSize = Undefined, totalSize = Undefined\<rparr>)]"

definition example_metrics :: metrics where
  "example_metrics =
     \<lparr>opcounters = Value (Object example_opcounters), uptimeSeconds = Value 370,
      connections = Value (Object \<lparr>current = Value 7\<rparr>),
      mem = Some (JObj [(''resident'', JNum 100)]), memory = None,
      network = Value (Object \<lparr>bytesIn = Value (1024 * 1024), bytesOut = Undefined\<rparr>),
      dbStats = db_stats_object example_sparse_db_stats,
      other_properties = [(''timestamp'', JStr ''2024-01-01T00:00:00.000Z'')]\<rparr>"


text \<open>The same snapshot with \<^verbatim>\<open>"network": null\<close>.\<close>

definition example_null_network_metrics :: metrics where
  "example_null_network_metrics = example_metrics\<lparr>network := Null\<rparr>"

definition example_sizing :: sizing where
  "example_sizing =
     \<lparr>Total_Operations = Num 370, Uptime_seconds = Value 370, Operations_per_Second = Num 1,
      CPU_Cores_Required = Num 1, Working_Set_Size_MB = Num 4, Memory_Required_MB = Num 6,
      Storage_Required_Bytes = Num 12, Network_Bandwidth_Required = Num (2703 / 1000000),
      Connection_Limits = Num 11\<rparr>"

definition ns_not_found :: mongo_error where
  "ns_not_found = \<lparr>codeName = Some ''NamespaceNotFound'', message = ''ns not found''\<rparr>"

section \<open>Properties of the classifier\<close>

lemma catalog_disjoint:
  "list_all (\<lambda>k. startsWith_dollar k \<and> k \<notin> set supported_keywords) not_supported_keywords"
  by code_simp

lemma not_supported_is_trigger:
  "k \<in> set not_supported_keywords \<Longrightarrow> startsWith_dollar k \<and> k \<notin> set supported_keywords"
  using catalog_disjoint by (simp add: list_all_iff)

lemma add_trigger_eq:
  "add_trigger k cc = (if k \<in> set not_supported_keywords \<and> k \<notin> set cc then cc @ [k] else cc)"
  using not_supported_is_trigger [of k] by (auto simp: add_trigger_def)

lemma visit_key_cc: "snd (snd (visit_key k w)) = add_trigger k (snd (snd w))"
  by (cases w) (simp add: add_trigger_def)

lemma traverse_cc:
  "snd (snd (traverse j w)) = foldl (\<lambda>cc k. add_trigger k cc) (snd (snd w)) (object_keys j)"
  "snd (snd (traverse_keys kvs w)) = foldl (\<lambda>cc k. add_trigger k cc) (snd (snd w)) (property_keys kvs)"
  "snd (snd (traverse_items xs w)) = foldl (\<lambda>cc k. add_trigger k cc) (snd (snd w)) (item_keys xs)"
  by (induction j w and kvs w and xs w rule: traverse_traverse_keys_traverse_items.induct)
     (simp_all add: visit_key_cc)

lemma set_fold_triggers:
  "set (foldl (\<lambda>cc k. add_trigger k cc) cc ks) = set cc \<union> (set ks \<inter> set not_supported_keywords)"
  by (induction ks arbitrary: cc) (auto simp: add_trigger_eq)

lemma distinct_fold_triggers:
  "distinct cc \<Longrightarrow> distinct (foldl (\<lambda>cc k. add_trigger k cc) cc ks)"
  by (induction ks arbitrary: cc) (auto simp: add_trigger_eq)

lemma count_list_distinct: "distinct xs \<Longrightarrow> x \<in> set xs \<Longrightarrow> count_list xs x = 1"
  by (induction xs) auto

lemma set_triggers: "set (triggers e) = set (object_keys e) \<inter> set not_supported_keywords"
  by (simp add: triggers_def set_fold_triggers)

lemma distinct_triggers: "distinct (triggers e)"
  by (simp add: triggers_def distinct_fold_triggers)

lemma triggers_empty_iff: "triggers e = [] \<longleftrightarrow> \<not> contains_not_supported e"
proof -
  have "triggers e = [] \<longleftrightarrow> set (triggers e) = {}" by simp
  also have "\<dots> \<longleftrightarrow> \<not> contains_not_supported e"
    unfolding set_triggers contains_not_supported_def by blast
  finally show ?thesis .
qed

lemma get_op_entry: "entry \<noteq> JNull \<Longrightarrow> get_op entry = Inr (entry_op entry)"
  by (cases entry) (simp_all add: entry_op_def)

lemma op_is_command_iff: "op_is_command (entry_op e) = is_command_entry e"
  by (auto simp: op_is_command_def is_command_entry_def)

lemma analyze_entry_result:
  assumes "entry \<noteq> JNull"
  shows "\<exists>a'. analyze_entry entry a = Inr a'
    \<and> supported_commands a' = supported_commands a
         @ (if is_command_entry entry \<and> \<not> contains_not_supported entry then [entry] else [])
    \<and> not_supported_commands a' = not_supported_commands a
         @ (if is_command_entry entry \<and> contains_not_supported entry
            then [(entry, triggers entry)] else [])"
proof (cases "is_command_entry entry")
  case False
  then show ?thesis
    using assms by (simp add: analyze_entry_def get_op_entry op_is_command_iff)
next
  case True
  obtain sd nd cc where t:
    "traverse entry (supported_dictionary a, not_supported_dictionary a, []) = (sd, nd, cc)"
    by (cases "traverse entry (supported_dictionary a, not_supported_dictionary a, [])") auto
  have cc: "cc = triggers entry"
    using traverse_cc(1) [of entry "(supported_dictionary a, not_supported_dictionary a, [])"]
    by (simp add: t triggers_def)
  show ?thesis
    using assms True triggers_empty_iff [of entry]
    by (simp add: analyze_entry_def get_op_entry op_is_command_iff t cc)
qed

lemma for_each_entry_result:
  assumes "JNull \<notin> set data"
  shows "\<exists>r. for_each_entry data a = Inr r
    \<and> supported_commands r = supported_commands a
         @ filter (\<lambda>e. is_command_entry e \<and> \<not> contains_not_supported e) data
    \<and> not_supported_commands r = not_supported_commands a
         @ map (\<lambda>e. (e, triggers e))
             (filter (\<lambda>e. is_command_entry e \<and> contains_not_supported e) data)"
  using assms
proof (induction data arbitrary: a)
  case Nil
  then show ?case by simp
next
  case (Cons entry rest)
  then have "entry \<noteq> JNull" and rest: "JNull \<notin> set rest" by auto
  from analyze_entry_result [OF this(1), of a] obtain a' where
    a': "analyze_entry entry a = Inr a'"
    "supported_commands a' = supported_commands a
         @ (if is_command_entry entry \<and> \<not> contains_not_supported entry then [entry] else [])"
    "not_supported_commands a' = not_supported_commands a
         @ (if is_command_entry entry \<and> contains_not_supported entry
            then [(entry, triggers entry)] else [])"
    by blast
  from Cons.IH [OF rest, of a'] show ?case
    by (auto simp: a')
qed

lemma analyze_keywords_result:
  assumes "JNull \<notin> set data"
  shows "\<exists>r. analyze_keywords data = Inr r
    \<and> supported_commands r = filter (\<lambda>e. is_command_entry e \<and> \<not> contains_not_supported e) data
    \<and> not_supported_commands r = map (\<lambda>e. (e, triggers e))
             (filter (\<lambda>e. is_command_entry e \<and> contains_not_supported e) data)"
  using for_each_entry_result [OF assms, of "\<lparr>supported_dictionary = [], not_supported_dictionary = [],
        supported_commands = [], not_supported_commands = []\<rparr>"]
  by (simp add: analyze_keywords_def)

text \<open>A \<^verbatim>\<open>null\<close> among the entries makes the whole analysis throw.\<close>

lemma for_each_entry_null:
  assumes "JNull \<in> set data"
  shows "\<exists>e. for_each_entry data a = Inl e"
  using assms
proof (induction data arbitrary: a)
  case Nil
  then show ?case by simp
next
  case (Cons entry rest)
  show ?case
  proof (cases "entry = JNull")
    case True
    then show ?thesis by (simp add: analyze_entry_def)
  next
    case False
    with Cons.prems have rest: "JNull \<in> set rest" by auto
    from analyze_entry_result [OF False, of a] obtain a' where
      "analyze_entry entry a = Inr a'" by blast
    with Cons.IH [OF rest, of a'] show ?thesis by simp
  qed
qed

lemma analyze_keywords_null:
  "JNull \<in> set data \<Longrightarrow> \<exists>e. analyze_keywords data = Inl e"
  unfolding analyze_keywords_def by (rule for_each_entry_null)

subsection \<open>The example profile\<close>

lemma example_profile_no_null: "JNull \<notin> set example_profile"
  by (simp add: example_profile_def example_query_def example_match_def example_plain_def
      example_lookup_def)

lemma ex_cmd: "\<not> is_command_entry example_query" "is_command_entry example_match"
  "is_command_entry example_plain" "is_command_entry example_lookup"
  by (simp_all add: is_command_entry_def entry_op_def example_query_def example_match_def
      example_plain_def example_lookup_def)

lemma ex_keys:
  "object_keys example_match = [''op'', ''command'', ''pipeline'', ''$match'', ''a'']"
  "object_keys example_plain = [''op'', ''ns'']"
  "object_keys example_lookup = [''op'', ''command'', ''pipeline'', ''$lookup'', ''from'',
      ''$match'', ''x'', ''$mod'', ''$lookup'', ''from'']"
  by (simp_all add: example_match_def example_plain_def example_lookup_def)

lemma ex_contains: "\<not> contains_not_supported example_match"
  "\<not> contains_not_supported example_plain" "contains_not_supported example_lookup"
  unfolding contains_not_supported_def ex_keys by code_simp+

subsection \<open>Partition of the entries\<close>

text \<open>
  C1. For every sequence of profile entries (none of them \<^verbatim>\<open>null\<close>, on which reading
  \<^verbatim>\<open>entry.op\<close> throws), \<^verbatim>\<open>analyze_keywords\<close> returns, and the two sequences it
  returns are the input filtered, in input order: \<^verbatim>\<open>supported_commands\<close> holds the
  entries whose \<^verbatim>\<open>op\<close> is \<^verbatim>\<open>"command"\<close> and that contain no not-supported keyword
  as an object key at any depth (in particular those with no \<^verbatim>\<open>$\<close> key at all),
  \<^verbatim>\<open>not_supported_commands\<close> those whose \<^verbatim>\<open>op\<close> is \<^verbatim>\<open>"command"\<close> and that contain
  one. So an entry with another \<^verbatim>\<open>op\<close> is in neither, and a command entry is in
  exactly one of them.
\<close>

theorem analyze_keywords_partition:
  assumes "JNull \<notin> set data"
  shows "\<exists>r. analyze_keywords data = Inr r
    \<and> supported_commands r = filter (\<lambda>e. is_command_entry e \<and> \<not> contains_not_supported e) data
    \<and> map fst (not_supported_commands r) =
        filter (\<lambda>e. is_command_entry e \<and> contains_not_supported e) data
    \<and> (\<forall>e \<in> set data.
          (e \<in> set (supported_commands r) \<longleftrightarrow> is_command_entry e \<and> \<not> contains_not_supported e)
        \<and> (e \<in> fst ` set (not_supported_commands r) \<longleftrightarrow>
               is_command_entry e \<and> contains_not_supported e))"
proof -
  from analyze_keywords_result [OF assms] obtain r where r:
    "analyze_keywords data = Inr r"
    "supported_commands r = filter (\<lambda>e. is_command_entry e \<and> \<not> contains_not_supported e) data"
    "not_supported_commands r = map (\<lambda>e. (e, triggers e))
             (filter (\<lambda>e. is_command_entry e \<and> contains_not_supported e) data)"
    by blast
  have m: "map fst (not_supported_commands r) =
        filter (\<lambda>e. is_command_entry e \<and> contains_not_supported e) data"
    by (simp add: r(3) comp_def)
  have "fst ` set (not_supported_commands r) = set (map fst (not_supported_commands r))"
    by simp
  then have s: "fst ` set (not_supported_commands r) =
      {e \<in> set data. is_command_entry e \<and> contains_not_supported e}"
    unfolding m by simp
  show ?thesis
    using r(1) r(2) m s by auto
qed

theorem analyze_keywords_partition_witness:
  "JNull \<notin> set example_profile \<and>
   (\<exists>r. analyze_keywords example_profile = Inr r
      \<and> supported_commands r = [example_match, example_plain]
      \<and> map fst (not_supported_commands r) = [example_lookup])"
proof -
  have f1: "filter (\<lambda>e. is_command_entry e \<and> \<not> contains_not_supported e) example_profile
      = [example_match, example_plain]"
    by (simp add: example_profile_def ex_cmd ex_contains)
  have f2: "filter (\<lambda>e. is_command_entry e \<and> contains_not_supported e) example_profile
      = [example_lookup]"
    by (simp add: example_profile_def ex_cmd ex_contains)
  show ?thesis
    using analyze_keywords_partition [OF example_profile_no_null] example_profile_no_null
    unfolding f1 f2 by (elim exE conjE) simp
qed

subsection \<open>Triggers are listed once\<close>

text \<open>
  C3. If a not-supported keyword \<open>K\<close> occurs, any number of times, as an object key
  inside a command entry \<open>e\<close> of the input, then \<open>e\<close> is put in
  \<^verbatim>\<open>not_supported_commands\<close> (and not in \<^verbatim>\<open>supported_commands\<close>), and wherever \<open>e\<close>
  stands there, \<open>K\<close> occurs exactly once in the \<^verbatim>\<open>command_category\<close> paired with it.
\<close>

theorem triggers_listed_once:
  assumes "JNull \<notin> set data" and "e \<in> set data" and "is_command_entry e"
    and "K \<in> set not_supported_keywords" and "K \<in> set (object_keys e)"
  shows "\<exists>r. analyze_keywords data = Inr r
    \<and> e \<in> fst ` set (not_supported_commands r)
    \<and> e \<notin> set (supported_commands r)
    \<and> (\<forall>(e', command_category) \<in> set (not_supported_commands r).
          e' = e \<longrightarrow> count_list command_category K = 1)"
proof -
  from analyze_keywords_result [OF assms(1)] obtain r where r:
    "analyze_keywords data = Inr r"
    "supported_commands r = filter (\<lambda>e. is_command_entry e \<and> \<not> contains_not_supported e) data"
    "not_supported_commands r = map (\<lambda>e. (e, triggers e))
             (filter (\<lambda>e. is_command_entry e \<and> contains_not_supported e) data)"
    by blast
  have c: "contains_not_supported e"
    using assms(4,5) by (auto simp: contains_not_supported_def)
  have "K \<in> set (triggers e)"
    using assms(4,5) by (simp add: set_triggers)
  then have one: "count_list (triggers e) K = 1"
    using distinct_triggers [of e] by (simp add: count_list_distinct)
  have "(e, triggers e) \<in> set (not_supported_commands r)"
    using assms(2,3) c by (simp add: r(3))
  then have "e \<in> fst ` set (not_supported_commands r)"
    by force
  moreover have "e \<notin> set (supported_commands r)"
    using c by (simp add: r(2))
  moreover have "\<forall>(e', command_category) \<in> set (not_supported_commands r).
          e' = e \<longrightarrow> count_list command_category K = 1"
    using one by (auto simp: r(3))
  ultimately show ?thesis using r(1) by blast
qed

theorem triggers_listed_once_witness:
  "JNull \<notin> set example_profile \<and> example_lookup \<in> set example_profile
   \<and> is_command_entry example_lookup \<and> ''$lookup'' \<in> set not_supported_keywords
   \<and> count_list (object_keys example_lookup) ''$lookup'' = 2
   \<and> (\<exists>r. analyze_keywords example_profile = Inr r
      \<and> example_lookup \<in> fst ` set (not_supported_commands r)
      \<and> example_lookup \<notin> set (supported_commands r)
      \<and> (\<forall>(e', command_category) \<in> set (not_supported_commands r).
          e' = example_lookup \<longrightarrow> count_list command_category ''$lookup'' = 1))"
proof -
  have h2: "example_lookup \<in> set example_profile" by (simp add: example_profile_def)
  have h4: "''$lookup'' \<in> set not_supported_keywords" by code_simp
  have h5: "''$lookup'' \<in> set (object_keys example_lookup)" by (simp add: ex_keys)
  have c: "count_list (object_keys example_lookup) ''$lookup'' = 2" by (simp add: ex_keys)
  show ?thesis
    using triggers_listed_once [OF example_profile_no_null h2 ex_cmd(4) h4 h5]
      example_profile_no_null h2 ex_cmd(4) h4 c
    by (intro conjI)
qed

section \<open>Properties of the keyword summary\<close>

lemma foldl_add: "foldl (\<lambda>a b. a + b) (a::nat) xs = a + sum_list xs"
  by (induction xs arbitrary: a) simp_all

lemma sum_values_eq: "sum_values d = sum_list (map snd d)"
  by (simp add: sum_values_def foldl_add)

text \<open>
  What the guard of \<^verbatim>\<open>summarize_keywords\<close> keeps away: for two empty dictionaries the
  division it skips is \<^verbatim>\<open>0 / 0\<close>, and the percentage would be \<^verbatim>\<open>NaN\<close>.
\<close>

lemma unguarded_percent_of_nothing:
  "js_mul (js_div (Num (of_nat (sum_values []))) (Num (of_nat (sum_values [] + sum_values []))))
     (Num 100) = NaN"
  by (simp add: sum_values_def)

text \<open>
  C4. For any two count dictionaries, \<^verbatim>\<open>summarize_keywords\<close> totals their values, and
  \<^verbatim>\<open>supported_percent\<close> is the number \<open>100 * total_supported / (total_supported + total_not_supported)\<close>,
  or the number \<open>0\<close> when that denominator is \<open>0\<close>: it is never the \<^verbatim>\<open>NaN\<close> of a
  division of zero by zero, and it always lies between \<open>0\<close> and \<open>100\<close>.
\<close>

theorem supported_percent_range:
  "total_supported (summarize_keywords sd nd) = sum_list (map snd sd)
   \<and> total_not_supported (summarize_keywords sd nd) = sum_list (map snd nd)
   \<and> supported_percent (summarize_keywords sd nd) =
     Num (if total_supported (summarize_keywords sd nd)
               + total_not_supported (summarize_keywords sd nd) = 0 then 0
          else 100 * of_nat (total_supported (summarize_keywords sd nd))
                 / of_nat (total_supported (summarize_keywords sd nd)
                            + total_not_supported (summarize_keywords sd nd)))
   \<and> (\<exists>p. supported_percent (summarize_keywords sd nd) = Num p \<and> 0 \<le> p \<and> p \<le> 100)"
proof -
  define s where "s = sum_list (map snd sd)"
  define n where "n = sum_list (map snd nd)"
  have t: "total_supported (summarize_keywords sd nd) = s"
    "total_not_supported (summarize_keywords sd nd) = n"
    by (simp_all add: summarize_keywords_def Let_def sum_values_eq s_def n_def)
  have p: "supported_percent (summarize_keywords sd nd) =
      Num (if s + n = 0 then 0 else 100 * of_nat s / of_nat (s + n))"
    by (simp add: summarize_keywords_def Let_def sum_values_eq s_def n_def)
  have lo: "0 \<le> (if s + n = 0 then 0 else 100 * of_nat s / of_nat (s + n) :: rat)"
    by simp
  have hi: "(if s + n = 0 then 0 else 100 * of_nat s / of_nat (s + n) :: rat) \<le> 100"
  proof (cases "s + n = 0")
    case True
    then show ?thesis by simp
  next
    case False
    then have "0 < s + n" by simp
    then have pos: "(0::rat) < of_nat (s + n)" by (simp only: of_nat_0_less_iff)
    have "(of_nat s :: rat) \<le> of_nat (s + n)" by simp
    then have "100 * (of_nat s :: rat) \<le> 100 * of_nat (s + n)" by simp
    then have "100 * (of_nat s :: rat) / of_nat (s + n) \<le> 100"
      using pos by (simp add: pos_divide_le_eq)
    with False show ?thesis by simp
  qed
  show ?thesis
    unfolding t p using lo hi by (simp add: s_def n_def)
qed

theorem supported_percent_range_witness:
  "supported_percent (summarize_keywords [(''$match'', 2)] [(''$lookup'', 1)]) = Num (200 / 3)
   \<and> supported_percent (summarize_keywords [] []) = Num 0"
  using supported_percent_range [of "[(''$match'', 2)]" "[(''$lookup'', 1)]"]
    supported_percent_range [of "[]" "[]"]
  by simp

section \<open>Properties of the sizing estimator\<close>

subsection \<open>Processor cores\<close>

text \<open>
  C2, as the script computes it. When the six counters are present, \<^verbatim>\<open>total_operations\<close>
  is their sum plus \<^verbatim>\<open>opcounters.deprecated.query\<close> when \<^verbatim>\<open>opcounters\<close> has a
  \<^verbatim>\<open>deprecated\<close> object (plus \<open>0\<close> when it has none); \<^verbatim>\<open>ops_per_sec\<close> is that total
  divided by the uptime when the uptime is positive and \<open>0\<close> otherwise; and
  \<^verbatim>\<open>cpu_cores\<close> is the ceiling of \<^verbatim>\<open>ops_per_sec\<close> divided by \<open>1500\<close>.
\<close>

theorem cpu_cores_formula:
  assumes "oc_insert oc = Value i" and "oc_query oc = Value q" and "oc_update oc = Value u"
    and "oc_delete oc = Value d" and "oc_getmore oc = Value g" and "oc_command oc = Value c"
    and "oc_deprecated oc = Undefined \<and> x = 0
         \<or> (\<exists>dep. oc_deprecated oc = Value (Object dep) \<and> dep_query dep = Value x)"
  shows "calculate_cpu_cores (Value (Object oc)) uptime 1500 =
     Inr \<lparr>total_operations = Num (i + q + u + d + g + c + x),
          ops_per_sec =
            Num (case uptime of
                   Value up \<Rightarrow> if up > 0 then (i + q + u + d + g + c + x) / up else 0
                 | _ \<Rightarrow> 0),
          cpu_cores =
            Num (of_int \<lceil>(case uptime of
                   Value up \<Rightarrow> if up > 0 then (i + q + u + d + g + c + x) / up else 0
                 | _ \<Rightarrow> 0) / 1500\<rceil>)\<rparr>"
proof -
  have dep: "(case oc_deprecated oc of
                Value deprecated \<Rightarrow>
                  if truthy_value (Value deprecated)
                  then to_number (member_of deprecated dep_query) else Num 0
              | Undefined \<Rightarrow> Num 0
              | Null \<Rightarrow> Num 0) = Num x"
    using assms(7) by auto
  show ?thesis
    by (cases uptime) (simp_all add: calculate_cpu_cores_def Let_def assms(1-6) dep)
qed

text \<open>
  The specification's example: counters \<open>100, 200, 50, 10, 5, 5\<close> and an uptime of
  \<open>370\<close> seconds give \<open>370\<close> operations, \<open>1\<close> operation per second and \<open>1\<close> core.
\<close>

theorem cpu_cores_formula_witness:
  "calculate_cpu_cores (Value (Object example_opcounters)) (Value 370) 1500 =
     Inr \<lparr>total_operations = Num 370, ops_per_sec = Num 1, cpu_cores = Num 1\<rparr>"
proof -
  have "oc_deprecated example_opcounters = Undefined \<and> (0::rat) = 0
         \<or> (\<exists>dep. oc_deprecated example_opcounters = Value (Object dep)
                \<and> dep_query dep = Value 0)"
    by (simp add: example_opcounters_def)
  from cpu_cores_formula [of example_opcounters 100 200 50 10 5 5 0 "Value 370", OF _ _ _ _ _ _ this]
  show ?thesis
    by (simp add: example_opcounters_def ceiling_eq_iff)
qed

text \<open>
  C2 as stated fails: with \<^verbatim>\<open>deprecated: {query: 5}\<close> beside the same six counters the
  total is \<open>375\<close>, not their sum \<open>370\<close>.
\<close>

theorem six_counter_sum_counterexample:
  "calculate_cpu_cores (Value (Object example_opcounters_deprecated)) (Value 370) 1500 =
     Inr \<lparr>total_operations = Num 375, ops_per_sec = Num (375 / 370), cpu_cores = Num 1\<rparr>
   \<and> six_counter_sum example_opcounters_deprecated = Num 370
   \<and> Num 375 \<noteq> six_counter_sum example_opcounters_deprecated"
  by (simp add: calculate_cpu_cores_def example_opcounters_deprecated_def six_counter_sum_def
      Let_def ceiling_eq_iff)

subsection \<open>Memory, storage and network\<close>

lemma or_zero_eq: "or_zero v = Num (absent_as_zero v)"
  by (cases v) simp_all

lemma or_zero_member: "or_zero (member_of c field) = Num (size_in field (Value c))"
  by (cases c) (simp_all add: or_zero_eq)

lemma or_zero_bytes: "or_zero (member_of n field) = Num (bytes_of field n)"
  by (cases n) (simp_all add: or_zero_eq)

lemma add_sizes_eq:
  assumes "list_all (\<lambda>v. v \<noteq> Undefined \<and> v \<noteq> Null) vs"
  shows "add_sizes vs (Num a, Num b) =
     Inr (Num (a + sum_list (map (size_in dataSize) vs)),
          Num (b + sum_list (map (size_in indexSize) vs)))"
  using assms
proof (induction vs arbitrary: a b)
  case Nil
  then show ?case by simp
next
  case (Cons v vs)
  then obtain c where v: "v = Value c" by (cases v) auto
  from Cons.prems have "list_all (\<lambda>v. v \<noteq> Undefined \<and> v \<noteq> Null) vs" by simp
  from Cons.IH [OF this] show ?case
    by (simp add: v or_zero_member add.assoc)
qed

lemma add_storage_eq:
  assumes "list_all (\<lambda>v. v \<noteq> Undefined \<and> v \<noteq> Null) vs"
  shows "add_storage vs (Num a) = Inr (Num (a + sum_list (map (size_in totalSize) vs)))"
  using assms
proof (induction vs arbitrary: a)
  case Nil
  then show ?case by simp
next
  case (Cons v vs)
  then obtain c where v: "v = Value c" by (cases v) auto
  from Cons.prems have "list_all (\<lambda>v. v \<noteq> Undefined \<and> v \<noteq> Null) vs" by simp
  from Cons.IH [OF this] show ?case
    by (simp add: v or_zero_member add.assoc)
qed

lemma calculate_memory_requirements_eq:
  assumes "no_null_entry db_stats"
  shows "calculate_memory_requirements mem_stats db_stats =
     Inr \<lparr>working_set_size_mb =
            Num ((sum_over_values dataSize db_stats + sum_over_values indexSize db_stats)
                   / (1024 * 1024)),
          memory_required_mb =
            Num (of_int \<lceil>(sum_over_values dataSize db_stats + sum_over_values indexSize db_stats)
                           / (1024 * 1024) * (15 / 10)\<rceil>)\<rparr>"
  using add_sizes_eq [OF assms [unfolded no_null_entry_def], of 0 0]
  by (simp add: calculate_memory_requirements_def sum_over_values_def Let_def)

lemma calculate_storage_requirements_eq:
  assumes "no_null_entry db_stats"
  shows "calculate_storage_requirements db_stats =
     Inr (Num (of_int \<lceil>sum_over_values totalSize db_stats * (12 / 10)\<rceil>))"
  using add_storage_eq [OF assms [unfolded no_null_entry_def], of 0]
  by (simp add: calculate_storage_requirements_def sum_over_values_def Let_def)

lemma calculate_network_bandwidth_eq:
  "calculate_network_bandwidth (Value n) uptime =
     Inr (Num (case uptime of
                 Value up \<Rightarrow>
                   if up > 0
                   then (bytes_of bytesIn n + bytes_of bytesOut n) / (1024 * 1024) / up
                   else 0
               | _ \<Rightarrow> 0))"
  by (cases uptime) (simp_all add: calculate_network_bandwidth_def or_zero_bytes Let_def)

text \<open>A \<^verbatim>\<open>dbStats\<close> object of statistics objects: its values and its sums.\<close>

lemma for_in_db_stats_object:
  "for_in_values (db_stats_object dbs) = map (\<lambda>(db, stats). Value (Object stats)) dbs"
  by (simp add: db_stats_object_def case_prod_beta comp_def)

lemma no_null_db_stats_object: "no_null_entry (db_stats_object dbs)"
  by (simp add: no_null_entry_def for_in_db_stats_object list_all_iff case_prod_beta)

lemma sum_over_db_stats_object:
  "sum_over_values field (db_stats_object dbs) = sum_over_databases field dbs"
  unfolding sum_over_values_def sum_over_databases_def for_in_db_stats_object
  by (induction dbs) auto

text \<open>
  C7. The working set in MB is the sum of \<^verbatim>\<open>dataSize\<close> plus the sum of \<^verbatim>\<open>indexSize\<close>
  over all databases, divided by \<open>1024 * 1024\<close>; the memory required is the ceiling of
  \<open>1.5\<close> times the working set; the storage required is the ceiling of \<open>1.2\<close> times
  the sum of \<^verbatim>\<open>totalSize\<close>.
\<close>

theorem memory_storage_formulas:
  "calculate_memory_requirements mem_stats (db_stats_object dbs) =
     Inr \<lparr>working_set_size_mb =
        Num ((sum_over_databases dataSize dbs + sum_over_databases indexSize dbs) / (1024 * 1024)),
      memory_required_mb =
        Num (of_int \<lceil>(sum_over_databases dataSize dbs + sum_over_databases indexSize dbs)
                       / (1024 * 1024) * (15 / 10)\<rceil>)\<rparr>
   \<and> calculate_storage_requirements (db_stats_object dbs) =
     Inr (Num (of_int \<lceil>sum_over_databases totalSize dbs * (12 / 10)\<rceil>))"
  by (simp only: calculate_memory_requirements_eq [OF no_null_db_stats_object]
      calculate_storage_requirements_eq [OF no_null_db_stats_object] sum_over_db_stats_object)

text \<open>
  The specification's example: one database with \<open>100\<close> MB of data, \<open>50\<close> MB of
  indexes and a total size of \<open>200\<close> MB.
\<close>

theorem memory_storage_formulas_witness:
  "calculate_memory_requirements None (db_stats_object example_db_stats) =
     Inr \<lparr>working_set_size_mb = Num 150, memory_required_mb = Num 225\<rparr>
   \<and> calculate_storage_requirements (db_stats_object example_db_stats) = Inr (Num 251658240)
   \<and> (251658240 :: int) = \<lceil>(200 * 1024 * 1024 :: rat) * (12 / 10)\<rceil>"
proof -
  have s: "sum_over_databases dataSize example_db_stats = 100 * 1024 * 1024"
    "sum_over_databases indexSize example_db_stats = 50 * 1024 * 1024"
    "sum_over_databases totalSize example_db_stats = 200 * 1024 * 1024"
    by (simp_all add: sum_over_databases_def example_db_stats_def)
  show ?thesis
    using memory_storage_formulas [of None example_db_stats]
    unfolding s by (simp add: ceiling_eq_iff)
qed

text \<open>
  When \<^verbatim>\<open>opcounters\<close>, \<^verbatim>\<open>connections\<close> and \<^verbatim>\<open>network\<close> have values and no per-database
  value is \<^verbatim>\<open>null\<close>, \<^verbatim>\<open>perform_sizing\<close> returns; a \<^verbatim>\<open>null\<close> in one of these places makes
  it throw.
\<close>

lemma perform_sizing_returns:
  assumes "opcounters m = Value oc" and "connections m = Value c" and "network m = Value n"
    and "no_null_entry d"
  shows "\<exists>cpu. calculate_cpu_cores (opcounters m) (uptimeSeconds m) 1500 = Inr cpu
    \<and> perform_sizing to_fixed m d =
        Inr \<lparr>Total_Operations = total_operations cpu, Uptime_seconds = uptimeSeconds m,
             Operations_per_Second = to_fixed 2 (ops_per_sec cpu),
             CPU_Cores_Required = cpu_cores cpu,
             Working_Set_Size_MB =
               to_fixed 2 (Num ((sum_over_values dataSize d + sum_over_values indexSize d)
                                   / (1024 * 1024))),
             Memory_Required_MB =
               Num (of_int \<lceil>(sum_over_values dataSize d + sum_over_values indexSize d)
                              / (1024 * 1024) * (15 / 10)\<rceil>),
             Storage_Required_Bytes = Num (of_int \<lceil>sum_over_values totalSize d * (12 / 10)\<rceil>),
             Network_Bandwidth_Required =
               to_fixed 6 (Num (case uptimeSeconds m of
                                  Value up \<Rightarrow>
                                    if up > 0
                                    then (bytes_of bytesIn n + bytes_of bytesOut n)
                                           / (1024 * 1024) / up
                                    else 0
                                | _ \<Rightarrow> 0)),
             Connection_Limits = calculate_connection_limits (member_of c current)\<rparr>"
proof -
  obtain cpu where cpu: "calculate_cpu_cores (Value oc) (uptimeSeconds m) 1500 = Inr cpu"
    by (simp add: calculate_cpu_cores_def Let_def)
  show ?thesis
    by (simp add: perform_sizing_def assms(1-3) cpu Let_def
        calculate_memory_requirements_eq [OF assms(4)]
        calculate_storage_requirements_eq [OF assms(4)] calculate_network_bandwidth_eq)
qed

lemma add_sizes_null:
  assumes "\<not> list_all (\<lambda>v. v \<noteq> Undefined \<and> v \<noteq> Null) vs"
  shows "\<exists>e. add_sizes vs totals = Inl e"
  using assms
proof (induction vs arbitrary: totals)
  case Nil
  then show ?case by simp
next
  case (Cons v vs)
  show ?case
  proof (cases v)
    case (Value c)
    with Cons.prems have "\<not> list_all (\<lambda>v. v \<noteq> Undefined \<and> v \<noteq> Null) vs" by simp
    from Cons.IH [OF this] show ?thesis
      by (cases totals) (simp add: Value)
  qed simp_all
qed

lemma null_entry_throws:
  "\<not> no_null_entry d \<Longrightarrow> \<exists>e. calculate_memory_requirements mem_stats d = Inl e"
  using add_sizes_null [of "for_in_values d" "(Num 0, Num 0)"]
  by (auto simp: no_null_entry_def calculate_memory_requirements_def)

lemma null_network_throws:
  "calculate_network_bandwidth Null uptime = Inl (cannot_read ''null'' ''bytesIn'')"
  by (simp add: calculate_network_bandwidth_def)

text \<open>
  C10 as stated fails: a snapshot with \<^verbatim>\<open>"network": null\<close> passes the presence check
  of the six required properties, and the network calculation throws on it.
\<close>

theorem null_network_counterexample:
  "filter (\<lambda>field. \<not> field_in field example_null_network_metrics) required_fields = []
   \<and> calculate_network_bandwidth (network example_null_network_metrics)
        (uptimeSeconds example_null_network_metrics) =
      Inl (TypeError ''Cannot read properties of null (reading 'bytesIn')'')"
  by (simp add: required_fields_def field_in_def example_null_network_metrics_def
      example_metrics_def db_stats_object_def calculate_network_bandwidth_def cannot_read_def)

text \<open>
  C10, as the script behaves. For a snapshot whose \<^verbatim>\<open>opcounters\<close>, \<^verbatim>\<open>connections\<close> and
  \<^verbatim>\<open>network\<close> are present and not \<^verbatim>\<open>null\<close> and whose \<^verbatim>\<open>dbStats\<close> holds no \<^verbatim>\<open>null\<close>,
  the three calculations and \<^verbatim>\<open>perform_sizing\<close> return, and the working set, the
  memory, the storage and the network bandwidth are numbers: the sums count an absent
  \<^verbatim>\<open>dataSize\<close>, \<^verbatim>\<open>indexSize\<close>, \<^verbatim>\<open>totalSize\<close>, \<^verbatim>\<open>bytesIn\<close> or \<^verbatim>\<open>bytesOut\<close> as \<open>0\<close>. (The
  working set and the bandwidth of the sizing are these numbers after \<^verbatim>\<open>toFixed\<close>.)
\<close>

theorem absent_sizes_count_as_zero:
  assumes "opcounters m = Value oc" and "connections m = Value c" and "network m = Value n"
    and "no_null_entry (dbStats m)"
  shows "calculate_memory_requirements (memory m) (dbStats m) =
      Inr \<lparr>working_set_size_mb =
             Num ((sum_over_values dataSize (dbStats m) + sum_over_values indexSize (dbStats m))
                    / (1024 * 1024)),
           memory_required_mb =
             Num (of_int \<lceil>(sum_over_values dataSize (dbStats m)
                              + sum_over_values indexSize (dbStats m))
                            / (1024 * 1024) * (15 / 10)\<rceil>)\<rparr>
    \<and> calculate_storage_requirements (dbStats m) =
      Inr (Num (of_int \<lceil>sum_over_values totalSize (dbStats m) * (12 / 10)\<rceil>))
    \<and> calculate_network_bandwidth (network m) (uptimeSeconds m) =
      Inr (Num (case uptimeSeconds m of
                  Value up \<Rightarrow>
                    if up > 0
                    then (bytes_of bytesIn n + bytes_of bytesOut n) / (1024 * 1024) / up
                    else 0
                | _ \<Rightarrow> 0))
    \<and> (\<exists>s. perform_sizing to_fixed m (dbStats m) = Inr s
        \<and> Working_Set_Size_MB s =
            to_fixed 2 (Num ((sum_over_values dataSize (dbStats m)
                                + sum_over_values indexSize (dbStats m)) / (1024 * 1024)))
        \<and> Memory_Required_MB s =
            Num (of_int \<lceil>(sum_over_values dataSize (dbStats m)
                             + sum_over_values indexSize (dbStats m))
                           / (1024 * 1024) * (15 / 10)\<rceil>)
        \<and> Storage_Required_Bytes s =
            Num (of_int \<lceil>sum_over_values totalSize (dbStats m) * (12 / 10)\<rceil>)
        \<and> Network_Bandwidth_Required s =
            to_fixed 6 (Num (case uptimeSeconds m of
                               Value up \<Rightarrow>
                                 if up > 0
                                 then (bytes_of bytesIn n + bytes_of bytesOut n)
                                        / (1024 * 1024) / up
                                 else 0
                             | _ \<Rightarrow> 0)))"
proof (intro conjI)
  show "calculate_memory_requirements (memory m) (dbStats m) =
      Inr \<lparr>working_set_size_mb =
             Num ((sum_over_values dataSize (dbStats m) + sum_over_values indexSize (dbStats m))
                    / (1024 * 1024)),
           memory_required_mb =
             Num (of_int \<lceil>(sum_over_values dataSize (dbStats m)
                              + sum_over_values indexSize (dbStats m))
                            / (1024 * 1024) * (15 / 10)\<rceil>)\<rparr>"
    by (rule calculate_memory_requirements_eq [OF assms(4)])
  show "calculate_storage_requirements (dbStats m) =
      Inr (Num (of_int \<lceil>sum_over_values totalSize (dbStats m) * (12 / 10)\<rceil>))"
    by (rule calculate_storage_requirements_eq [OF assms(4)])
  show "calculate_network_bandwidth (network m) (uptimeSeconds m) =
      Inr (Num (case uptimeSeconds m of
                  Value up \<Rightarrow>
                    if up > 0
                    then (bytes_of bytesIn n + bytes_of bytesOut n) / (1024 * 1024) / up
                    else 0
                | _ \<Rightarrow> 0))"
    unfolding assms(3) by (rule calculate_network_bandwidth_eq)
  from perform_sizing_returns [OF assms, of to_fixed]
  show "\<exists>s. perform_sizing to_fixed m (dbStats m) = Inr s
        \<and> Working_Set_Size_MB s =
            to_fixed 2 (Num ((sum_over_values dataSize (dbStats m)
                                + sum_over_values indexSize (dbStats m)) / (1024 * 1024)))
        \<and> Memory_Required_MB s =
            Num (of_int \<lceil>(sum_over_values dataSize (dbStats m)
                             + sum_over_values indexSize (dbStats m))
                           / (1024 * 1024) * (15 / 10)\<rceil>)
        \<and> Storage_Required_Bytes s =
            Num (of_int \<lceil>sum_over_values totalSize (dbStats m) * (12 / 10)\<rceil>)
        \<and> Network_Bandwidth_Required s =
            to_fixed 6 (Num (case uptimeSeconds m of
                               Value up \<Rightarrow>
                                 if up > 0
                                 then (bytes_of bytesIn n + bytes_of bytesOut n)
                                        / (1024 * 1024) / up
                                 else 0
                             | _ \<Rightarrow> 0))"
    by auto
qed

text \<open>
  On the example snapshot, where two databases lack sizes, one has none and the
  network lacks \<^verbatim>\<open>bytesOut\<close>: a working set of \<open>4\<close> MB, \<open>6\<close> MB of memory, \<open>12\<close> bytes
  of storage and \<open>1 / 370\<close> MB per second.
\<close>

lemma example_sums:
  "sum_over_values dataSize (dbStats example_metrics) = 3 * 1024 * 1024"
  "sum_over_values indexSize (dbStats example_metrics) = 1024 * 1024"
  "sum_over_values totalSize (dbStats example_metrics) = 10"
  by (simp_all add: example_metrics_def sum_over_db_stats_object sum_over_databases_def
      example_sparse_db_stats_def)

lemma example_parts:
  "opcounters example_metrics = Value (Object example_opcounters)"
  "connections example_metrics = Value (Object \<lparr>current = Value 7\<rparr>)"
  "network example_metrics = Value (Object \<lparr>bytesIn = Value (1024 * 1024), bytesOut = Undefined\<rparr>)"
  "no_null_entry (dbStats example_metrics)"
  "uptimeSeconds example_metrics = Value 370"
  by (simp_all add: example_metrics_def no_null_db_stats_object)

theorem absent_sizes_count_as_zero_witness:
  "no_null_entry (dbStats example_metrics)
   \<and> calculate_memory_requirements (memory example_metrics) (dbStats example_metrics) =
      Inr \<lparr>working_set_size_mb = Num 4, memory_required_mb = Num 6\<rparr>
   \<and> calculate_storage_requirements (dbStats example_metrics) = Inr (Num 12)
   \<and> calculate_network_bandwidth (network example_metrics) (uptimeSeconds example_metrics) =
      Inr (Num (1 / 370))
   \<and> (\<forall>to_fixed. \<exists>s. perform_sizing to_fixed example_metrics (dbStats example_metrics) = Inr s
        \<and> Working_Set_Size_MB s = to_fixed 2 (Num 4) \<and> Memory_Required_MB s = Num 6
        \<and> Storage_Required_Bytes s = Num 12
        \<and> Network_Bandwidth_Required s = to_fixed 6 (Num (1 / 370)))"
proof -
  have "\<exists>s. perform_sizing to_fixed example_metrics (dbStats example_metrics) = Inr s
        \<and> Working_Set_Size_MB s = to_fixed 2 (Num 4) \<and> Memory_Required_MB s = Num 6
        \<and> Storage_Required_Bytes s = Num 12
        \<and> Network_Bandwidth_Required s = to_fixed 6 (Num (1 / 370))" for to_fixed
    using absent_sizes_count_as_zero [OF example_parts(1-4), of to_fixed]
    unfolding example_sums example_parts(5) by (simp add: ceiling_eq_iff)
  moreover have "calculate_memory_requirements (memory example_metrics) (dbStats example_metrics) =
      Inr \<lparr>working_set_size_mb = Num 4, memory_required_mb = Num 6\<rparr>"
    using absent_sizes_count_as_zero [OF example_parts(1-4), of "\<lambda>d x. x"]
    unfolding example_sums example_parts(5) by (simp add: ceiling_eq_iff)
  moreover have "calculate_storage_requirements (dbStats example_metrics) = Inr (Num 12)"
    using absent_sizes_count_as_zero [OF example_parts(1-4), of "\<lambda>d x. x"]
    unfolding example_sums example_parts(5) by (simp add: ceiling_eq_iff)
  moreover have "calculate_network_bandwidth (network example_metrics)
      (uptimeSeconds example_metrics) = Inr (Num (1 / 370))"
    using absent_sizes_count_as_zero [OF example_parts(1-4), of "\<lambda>d x. x"]
    unfolding example_sums example_parts(5) by simp
  ultimately show ?thesis
    using example_parts(4) by blast
qed

subsection \<open>The memory statistics are not read\<close>

lemma memory_requirements_ignore_mem_stats:
  "calculate_memory_requirements a d = calculate_memory_requirements b d"
  by (simp add: calculate_memory_requirements_def)

text \<open>
  C9. \<^verbatim>\<open>calculate_memory_requirements\<close> does not depend on its \<^verbatim>\<open>mem_stats\<close> argument,
  and two snapshots that agree on \<^verbatim>\<open>opcounters\<close>, \<^verbatim>\<open>uptimeSeconds\<close>,
  \<^verbatim>\<open>connections\<close>, \<^verbatim>\<open>network\<close> and \<^verbatim>\<open>dbStats\<close> get the same result from
  \<^verbatim>\<open>perform_sizing\<close> (the same sizing, or the same exception), whatever their
  \<^verbatim>\<open>mem\<close> and \<^verbatim>\<open>memory\<close> properties and their other properties are.
\<close>

theorem sizing_ignores_memory:
  assumes "opcounters m1 = opcounters m2" and "uptimeSeconds m1 = uptimeSeconds m2"
    and "connections m1 = connections m2" and "network m1 = network m2"
    and "dbStats m1 = dbStats m2"
  shows "perform_sizing to_fixed m1 (dbStats m1) = perform_sizing to_fixed m2 (dbStats m2)
    \<and> calculate_memory_requirements (memory m1) (dbStats m1)
        = calculate_memory_requirements (memory m2) (dbStats m2)"
proof -
  have m: "calculate_memory_requirements (memory m1) (dbStats m2)
      = calculate_memory_requirements (memory m2) (dbStats m2)"
    by (rule memory_requirements_ignore_mem_stats)
  show ?thesis
    unfolding perform_sizing_def assms m by simp
qed

theorem sizing_ignores_memory_witness:
  "mem (example_metrics\<lparr>mem := Some (JNum 1), memory := Some (JStr ''x'')\<rparr>) \<noteq> mem example_metrics
   \<and> memory (example_metrics\<lparr>mem := Some (JNum 1), memory := Some (JStr ''x'')\<rparr>)
        \<noteq> memory example_metrics
   \<and> (\<forall>to_fixed.
        perform_sizing to_fixed (example_metrics\<lparr>mem := Some (JNum 1), memory := Some (JStr ''x'')\<rparr>)
          (dbStats (example_metrics\<lparr>mem := Some (JNum 1), memory := Some (JStr ''x'')\<rparr>))
        = perform_sizing to_fixed example_metrics (dbStats example_metrics))"
  using sizing_ignores_memory
    [of "example_metrics\<lparr>mem := Some (JNum 1), memory := Some (JStr ''x'')\<rparr>" example_metrics]
  by (simp add: example_metrics_def)

section \<open>Properties of the sizing mode\<close>




section \<open>Properties of the report\<close>

text \<open>
  C8, as the script renders it. The report holds the FAQ block exactly when the
  \<^verbatim>\<open>metrics\<close> argument is \<^verbatim>\<open>null\<close>; the \<^verbatim>\<open>sizing\<close> argument has no part in it.
\<close>

theorem faq_iff_no_metrics:
  "FAQ \<in> set (snd (generate_html_report supported_dict not_supported_dict supported_cmds
                      not_supported_cmds output_file metrics sizing))
     \<longleftrightarrow> metrics = None"
  by (cases metrics; cases sizing) (simp_all add: generate_html_report_def Let_def)

theorem faq_iff_no_metrics_witness:
  "FAQ \<in> set (snd (generate_html_report [] [] [] [] ''report.html'' None None))
   \<and> FAQ \<in> set (snd (generate_html_report [] [] [] [] ''report.html'' None (Some example_sizing)))
   \<and> FAQ \<notin> set (snd (generate_html_report [] [] [] [] ''report.html''
                        (Some example_metrics) (Some example_sizing)))
   \<and> FAQ \<notin> set (snd (generate_html_report [] [] [] [] ''report.html''
                        (Some example_metrics) None))"
  using faq_iff_no_metrics [of "[]" "[]" "[]" "[]" "''report.html''" None None]
    faq_iff_no_metrics [of "[]" "[]" "[]" "[]" "''report.html''" None "Some example_sizing"]
    faq_iff_no_metrics [of "[]" "[]" "[]" "[]" "''report.html''" "Some example_metrics"
      "Some example_sizing"]
    faq_iff_no_metrics [of "[]" "[]" "[]" "[]" "''report.html''" "Some example_metrics" None]
  by simp

text \<open>
  C8 as stated fails: a report rendered with a sizing and no metrics holds the FAQ.
\<close>

theorem faq_with_sizing_counterexample:
  "Some example_sizing \<noteq> None
   \<and> FAQ \<in> set (snd (generate_html_report [] [] [] [] ''report.html'' None (Some example_sizing)))"
  by (simp add: generate_html_report_def Let_def)

section \<open>Properties of the purge\<close>

text \<open>
  The purge of the sizing script recovers from \<^verbatim>\<open>NamespaceNotFound\<close> and lets every
  other failure of the drop through.
\<close>

lemma purge_profiling_data_tolerates:
  "purge_profiling_data Dropped db_name =
     Inr [''Profiling data purged from database '' @ [CHR 0x27] @ db_name @ [CHR 0x27] @ ''.'']"
  "codeName e = Some ''NamespaceNotFound'' \<Longrightarrow>
   purge_profiling_data (Drop_Failed e) db_name =
     Inr [''No profiling data found in database '' @ [CHR 0x27] @ db_name @ [CHR 0x27] @ ''.'']"
  "codeName e \<noteq> Some ''NamespaceNotFound'' \<Longrightarrow>
   purge_profiling_data (Drop_Failed e) db_name = Inl e"
  by (simp_all add: purge_profiling_data_def)

text \<open>
  C6 on \<^verbatim>\<open>mongoAssess.js\<close>: there the purge has no handler, so the failure of the drop
  on a database without \<^verbatim>\<open>system.profile\<close> leaves the function, where the purge of
  the sizing script prints its message and returns.
\<close>

theorem purge_mongoAssess_propagates_missing_collection:
  "codeName ns_not_found = Some ''NamespaceNotFound''
   \<and> purge_profiling_data_mongoAssess (Drop_Failed ns_not_found) ''test'' = Inl ns_not_found
   \<and> purge_profiling_data (Drop_Failed ns_not_found) ''test'' =
       Inr [''No profiling data found in database 'test'.'']"
  by (simp add: purge_profiling_data_mongoAssess_def purge_profiling_data_def ns_not_found_def)

end
